theory Spec2Isabelle
  imports Main "HOL-Library.Sublist"
begin

section \<open>The URL shortening service: data model\<close>

text \<open>
  The table \<open>urls\<close> of \<open>app/database.py\<close>. A freshly constructed \<open>URL(short_code=...,
  original_url=...)\<close> object has no primary key and no timestamp yet; both are filled in
  when the row is flushed, so the two columns are optional here. Timestamps are seconds
  as integers.
\<close>

record URL =
  url_id :: "int option"
  short_code :: string
  original_url :: string
  created_at :: "int option"

text \<open>
  A database session (\<open>SessionLocal()\<close>, \<open>autoflush=False\<close>): the rows of the table as
  the database holds them, in insertion order, and the objects added to the session
  that have not been flushed yet.
\<close>

record session =
  rows :: "URL list"
  pending :: "URL list"

datatype db_error = IntegrityError | InvalidRequestError

text \<open>
  What a request can fail with: an \<open>HTTPException\<close> raised by a handler, with its status
  code and detail, or the framework's rejection of a request body that does not fit the
  request schema.
\<close>

datatype http_error =
    HTTPException int string
  | RequestValidationError string

text \<open>The response schema \<open>URLShortenResponse\<close> of \<open>app/schemas.py\<close>.\<close>

datatype URLShortenResponse =
  URLShortenResponse (short_url: string) (resp_original_url: string)
    (resp_short_code: string) (resp_created_at: "int option")

datatype RedirectResponse = RedirectResponse (url: string) (status_code: int)

text \<open>
  What the handlers take from outside the repository: the predicate \<open>validators.url\<close> of
  the third-party package \<open>validators\<close> (true exactly when the package accepts the
  string), the environment variable \<open>BASE_URL\<close>, and the text \<open>str(e)\<close> that the
  database library gives an exception it raises.
\<close>

record env =
  validators_url :: "string \<Rightarrow> bool"
  BASE_URL :: "string option"
  exception_text :: "db_error \<Rightarrow> string"

text \<open>
  The random source behind \<open>secrets.choice\<close>: an endless sequence of raw draws, the next
  one at index 0. Every sequence is a possible run of the generator.
\<close>

type_synonym rng = "nat \<Rightarrow> nat"

section \<open>\<open>utils.py\<close>\<close>

text \<open>\<open>str.startswith\<close> with a tuple of prefixes.\<close>

definition startswith :: "string \<Rightarrow> string list \<Rightarrow> bool" where
  "startswith s ps = list_ex (\<lambda>p. take (length p) s = p) ps"

definition validate_url :: "(string \<Rightarrow> bool) \<Rightarrow> string \<Rightarrow> bool" where
  "validate_url valid u =
     (if u = [] then False
      else valid (if \<not> startswith u [''http://'', ''https://''] then ''https://'' @ u else u))"

definition normalize_url :: "string \<Rightarrow> string" where
  "normalize_url u =
     (if \<not> startswith u [''http://'', ''https://''] then ''https://'' @ u else u)"

text \<open>\<open>string.ascii_letters + string.digits\<close>.\<close>

definition alphabet :: string where
  "alphabet = ''abcdefghijklmnopqrstuvwxyzABCDEFGHIJKLMNOPQRSTUVWXYZ0123456789''"

text \<open>
  \<open>secrets.choice(alphabet)\<close> is \<open>alphabet[randbelow(len(alphabet))]\<close>; the draw is reduced
  to an index below the length of the sequence.
\<close>

definition secrets_choice :: "'a list \<Rightarrow> nat \<Rightarrow> 'a" where
  "secrets_choice xs r = xs ! (r mod length xs)"

text \<open>
  \<open>generate_short_code(length)\<close>: one draw per position, \<open>range(length)\<close> being empty for
  a length below one. The result comes with the random source after the draws it used.
\<close>

definition generate_short_code :: "rng \<Rightarrow> int \<Rightarrow> string \<times> rng" where
  "generate_short_code g len =
     (map (\<lambda>i. secrets_choice alphabet (g i)) [0..<nat len], \<lambda>i. g (i + nat len))"

text \<open>\<open>db.query(URL).filter(p).first()\<close>: the first row of the table that satisfies \<open>p\<close>.\<close>

definition query_first :: "session \<Rightarrow> (URL \<Rightarrow> bool) \<Rightarrow> URL option" where
  "query_first db p = find p (rows db)"

text \<open>
  The loop of \<open>get_unique_short_code\<close>, by the number of iterations left, and the function
  itself with its defaults written at the call.
\<close>

fun unique_loop :: "rng \<Rightarrow> session \<Rightarrow> int \<Rightarrow> nat \<Rightarrow> string" where
  "unique_loop g db len 0 = fst (generate_short_code g (len + 2))"
| "unique_loop g db len (Suc n) =
     (let (code, g') = generate_short_code g len;
          existing_url = query_first db (\<lambda>r. short_code r = code)
      in if existing_url = None then code else unique_loop g' db len n)"

definition get_unique_short_code :: "rng \<Rightarrow> session \<Rightarrow> int \<Rightarrow> int \<Rightarrow> string" where
  "get_unique_short_code g db len max_attempts = unique_loop g db len (nat max_attempts)"

section \<open>The session: add, commit, rollback, refresh, close\<close>

definition SessionLocal :: "URL list \<Rightarrow> session" where
  "SessionLocal table = \<lparr>rows = table, pending = []\<rparr>"

text \<open>The constructor call \<open>URL(short_code=code, original_url=normalized_url)\<close>.\<close>

definition new_URL :: "string \<Rightarrow> string \<Rightarrow> URL" where
  "new_URL code normalized_url =
     \<lparr>url_id = None, short_code = code, original_url = normalized_url, created_at = None\<rparr>"

definition db_add :: "session \<Rightarrow> URL \<Rightarrow> session" where
  "db_add db u = db\<lparr>pending := pending db @ [u]\<rparr>"

text \<open>The next value of the integer primary key: one above the largest in the table.\<close>

definition next_id :: "URL list \<Rightarrow> int" where
  "next_id table =
     1 + fold (\<lambda>r m. case url_id r of None \<Rightarrow> m | Some i \<Rightarrow> max i m) table 0"

text \<open>
  The flush of the pending objects, in order. The column \<open>short_code\<close> is declared
  \<open>unique=True\<close>: inserting a row whose code the table already holds fails, and nothing
  of the flush is kept. A row that goes in gets its primary key and the default of
  \<open>created_at\<close>, the time of the insert.
\<close>

fun flush :: "int \<Rightarrow> URL list \<Rightarrow> URL list \<Rightarrow> db_error + URL list" where
  "flush now table [] = Inr table"
| "flush now table (u # us) =
     (if short_code u \<in> set (map short_code table) then Inl IntegrityError
      else flush now
             (table @ [u\<lparr>url_id := Some (next_id table), created_at := Some now\<rparr>]) us)"

text \<open>
  \<open>db.commit()\<close>. When the flush fails the exception leaves the session as it was, the
  rejected object still pending, until \<open>rollback\<close> is called.
\<close>

definition db_commit :: "int \<Rightarrow> session \<Rightarrow> db_error + session" where
  "db_commit now db =
     (case flush now (rows db) (pending db) of
        Inl e \<Rightarrow> Inl e
      | Inr table \<Rightarrow> Inr \<lparr>rows = table, pending = []\<rparr>)"

definition db_rollback :: "session \<Rightarrow> session" where
  "db_rollback db = db\<lparr>pending := []\<rparr>"

text \<open>
  \<open>db.refresh(obj)\<close> reloads the object from its row; the row is found by the unique
  column here. It fails when the table has no such row.
\<close>

definition db_refresh :: "session \<Rightarrow> URL \<Rightarrow> db_error + URL" where
  "db_refresh db u =
     (case query_first db (\<lambda>r. short_code r = short_code u) of
        None \<Rightarrow> Inl InvalidRequestError
      | Some r \<Rightarrow> Inr r)"

definition db_close :: "session \<Rightarrow> session" where
  "db_close db = db\<lparr>pending := []\<rparr>"

section \<open>\<open>app/main.py\<close>: the handlers\<close>

text \<open>\<open>os.getenv("BASE_URL", "http://localhost:8000")\<close>.\<close>

definition base_url :: "env \<Rightarrow> string" where
  "base_url e = (case BASE_URL e of None \<Rightarrow> ''http://localhost:8000'' | Some b \<Rightarrow> b)"

definition response_of :: "env \<Rightarrow> URL \<Rightarrow> URLShortenResponse" where
  "response_of e r =
     URLShortenResponse (base_url e @ ''/'' @ short_code r) (original_url r)
       (short_code r) (created_at r)"

text \<open>
  The body of the \<open>try\<close> block of \<open>shorten_url\<close>: add, commit, refresh. It gives the
  refreshed object and the session, or the exception and the session as the exception
  left it.
\<close>

definition save_url :: "int \<Rightarrow> session \<Rightarrow> URL \<Rightarrow> (db_error \<times> session) + (URL \<times> session)" where
  "save_url now db db_url =
     (let db1 = db_add db db_url in
      case db_commit now db1 of
        Inl e \<Rightarrow> Inl (e, db1)
      | Inr db2 \<Rightarrow>
          (case db_refresh db2 db_url of
             Inl e \<Rightarrow> Inl (e, db2)
           | Inr r \<Rightarrow> Inr (r, db2)))"

text \<open>
  \<open>shorten_url\<close>, the handler of \<open>POST /api/shorten\<close>, on the \<open>url\<close> field of the request.
  A success is the status 201 of the route with the response body. The \<open>except\<close> around
  \<open>get_unique_short_code\<close> has no branch here, since that function raises nothing of its
  own; the metrics counters do not enter any response and are left out.
\<close>

definition shorten_url ::
  "env \<Rightarrow> rng \<Rightarrow> int \<Rightarrow> session \<Rightarrow> string \<Rightarrow> (http_error + int \<times> URLShortenResponse) \<times> session" where
  "shorten_url e g now db request_url =
     (if \<not> validate_url (validators_url e) request_url then
        (Inl (HTTPException 400
           ''Invalid URL format. Please provide a valid URL (e.g., https://example.com)''), db)
      else
        let normalized_url = normalize_url request_url in
        case query_first db (\<lambda>r. original_url r = normalized_url) of
          Some existing_url \<Rightarrow> (Inr (201, response_of e existing_url), db)
        | None \<Rightarrow>
            let code = get_unique_short_code g db 6 10;
                db_url = new_URL code normalized_url
            in (case save_url now db db_url of
                  Inl (ex, db') \<Rightarrow>
                    (Inl (HTTPException 500 (''Failed to save URL: '' @ exception_text e ex)),
                     db_rollback db')
                | Inr (r, db') \<Rightarrow>
                    (Inr (201, URLShortenResponse (base_url e @ ''/'' @ code)
                                (original_url r) (short_code r) (created_at r)), db')))"

definition not_found :: "string \<Rightarrow> http_error" where
  "not_found code = HTTPException 404 (''Short code '' @ [CHR 0x27] @ code @ [CHR 0x27] @ '' not found'')"

definition redirect_url :: "session \<Rightarrow> string \<Rightarrow> http_error + RedirectResponse" where
  "redirect_url db code =
     (case query_first db (\<lambda>r. short_code r = code) of
        None \<Rightarrow> Inl (not_found code)
      | Some url_record \<Rightarrow> Inr (RedirectResponse (original_url url_record) 302))"

definition get_url_stats :: "env \<Rightarrow> session \<Rightarrow> string \<Rightarrow> http_error + int \<times> URLShortenResponse" where
  "get_url_stats e db code =
     (case query_first db (\<lambda>r. short_code r = code) of
        None \<Rightarrow> Inl (not_found code)
      | Some url_record \<Rightarrow> Inr (200, response_of e url_record))"

section \<open>The requests\<close>

text \<open>
  The request schema \<open>URLShortenRequest\<close> of \<open>app/schemas.py\<close>: the field \<open>url\<close> is declared
  with \<open>min_length=1\<close>. The route takes its body as this type, so a body with an empty
  \<open>url\<close> fails the construction of the request and is answered with status 422 before
  the handler runs.
\<close>

definition URLShortenRequest :: "string \<Rightarrow> http_error + string" where
  "URLShortenRequest u =
     (if length u < 1 then Inl (RequestValidationError ''String should have at least 1 character'')
      else Inr u)"

fun http_status :: "http_error \<Rightarrow> int" where
  "http_status (HTTPException c d) = c"
| "http_status (RequestValidationError d) = 422"

text \<open>
  The dependency \<open>get_db\<close>: each request runs its handler on a session of its own over
  the table, and the session is closed afterwards whatever the handler did.
\<close>

definition get_db :: "URL list \<Rightarrow> (session \<Rightarrow> 'a \<times> session) \<Rightarrow> 'a \<times> URL list" where
  "get_db table handler =
     (let (result, db') = handler (SessionLocal table) in (result, rows (db_close db')))"

text \<open>The three operations as requests against the table.\<close>

definition create_short_url ::
  "env \<Rightarrow> rng \<Rightarrow> int \<Rightarrow> URL list \<Rightarrow> string \<Rightarrow> (http_error + int \<times> URLShortenResponse) \<times> URL list" where
  "create_short_url e g now table raw_url =
     (case URLShortenRequest raw_url of
        Inl err \<Rightarrow> (Inl err, table)
      | Inr u \<Rightarrow> get_db table (\<lambda>db. shorten_url e g now db u))"

definition redirect :: "URL list \<Rightarrow> string \<Rightarrow> (http_error + RedirectResponse) \<times> URL list" where
  "redirect table code = get_db table (\<lambda>db. (redirect_url db code, db))"

definition stats :: "env \<Rightarrow> URL list \<Rightarrow> string \<Rightarrow> (http_error + int \<times> URLShortenResponse) \<times> URL list" where
  "stats e table code = get_db table (\<lambda>db. (get_url_stats e db code, db))"

text \<open>A sequence of requests, run one after the other from a table.\<close>

datatype request =
    Create rng int string
  | Redirect string
  | Stats string

fun step :: "env \<Rightarrow> URL list \<Rightarrow> request \<Rightarrow> URL list" where
  "step e table (Create g now raw_url) = snd (create_short_url e g now table raw_url)"
| "step e table (Redirect code) = snd (redirect table code)"
| "step e table (Stats code) = snd (stats e table code)"

definition run :: "env \<Rightarrow> request list \<Rightarrow> URL list" where
  "run e reqs = foldl (step e) [] reqs"

definition unique_codes :: "URL list \<Rightarrow> bool" where
  "unique_codes table = distinct (map short_code table)"

section \<open>The contract of the generator, as the specification words it\<close>

text \<open>
  \<open>ensure_unique(length, max_attempts)\<close>: the candidates are \<open>max_attempts\<close> successive
  calls of \<open>generate\<close>; the result is the first candidate absent from the store, and when
  every candidate is in the store it is one more code, of \<open>length + 2\<close>, that is not looked
  up. The \<open>k\<close>-th candidate is generated from the draws the earlier ones left.
\<close>

definition candidate :: "rng \<Rightarrow> int \<Rightarrow> nat \<Rightarrow> string" where
  "candidate g len k = fst (generate_short_code (\<lambda>i. g (i + k * nat len)) len)"

definition ensure_unique :: "rng \<Rightarrow> session \<Rightarrow> int \<Rightarrow> int \<Rightarrow> string" where
  "ensure_unique g db len max_attempts =
     (case find (\<lambda>c. c \<notin> set (map short_code (rows db)))
             (map (candidate g len) [0..<nat max_attempts]) of
        Some c \<Rightarrow> c
      | None \<Rightarrow> fst (generate_short_code (\<lambda>i. g (i + nat max_attempts * nat len)) (len + 2)))"

section \<open>Names for the statements\<close>

text \<open>The row a successful flush stores for a new object, and the two error responses.\<close>

definition inserted_row :: "int \<Rightarrow> URL list \<Rightarrow> string \<Rightarrow> string \<Rightarrow> URL" where
  "inserted_row now table code n =
     (new_URL code n)\<lparr>url_id := Some (next_id table), created_at := Some now\<rparr>"

definition invalid_url_error :: http_error where
  "invalid_url_error = HTTPException 400
     ''Invalid URL format. Please provide a valid URL (e.g., https://example.com)''"

definition save_failed :: "env \<Rightarrow> db_error \<Rightarrow> http_error" where
  "save_failed e ex = HTTPException 500 (''Failed to save URL: '' @ exception_text e ex)"

text \<open>The status code a request ends with, error or not.\<close>

fun result_status :: "http_error + int \<times> 'a \<Rightarrow> int" where
  "result_status (Inl err) = http_status err"
| "result_status (Inr (st, body)) = st"

fun http_detail :: "http_error \<Rightarrow> string" where
  "http_detail (HTTPException c d) = d"
| "http_detail (RequestValidationError d) = d"

text \<open>
  Concrete inputs: a validator that asks for a dot, a random source that always draws 0
  (every generated character is \<open>a\<close>), and the table two creates leave with that source.
\<close>

definition example_env :: env where
  "example_env = \<lparr>validators_url = (\<lambda>u. CHR ''.'' \<in> set u), BASE_URL = None,
                  exception_text = (\<lambda>ex. ''database error'')\<rparr>"

definition zero_rng :: rng where
  "zero_rng = (\<lambda>i. 0)"

definition two_rows :: "URL list" where
  "two_rows =
     [\<lparr>url_id = Some 1, short_code = ''aaaaaa'', original_url = ''https://a.example'',
       created_at = Some 1\<rparr>,
      \<lparr>url_id = Some 2, short_code = ''aaaaaaaa'', original_url = ''https://b.example'',
       created_at = Some 2\<rparr>]"

section \<open>Facts about the utilities\<close>

lemma length_alphabet: "length alphabet = 62"
  by (simp add: alphabet_def)

lemma normalize_url_startswith: "startswith (normalize_url u) [''http://'', ''https://'']"
proof (cases "startswith u [''http://'', ''https://'']")
  case True
  then show ?thesis by (simp add: normalize_url_def)
next
  case False
  then have "normalize_url u = ''https://'' @ u" by (simp add: normalize_url_def)
  then show ?thesis by (simp add: startswith_def)
qed

lemma validate_url_normalize:
  "validate_url valid u = (u \<noteq> [] \<and> valid (normalize_url u))"
  by (simp add: validate_url_def normalize_url_def)

lemma secrets_choice_alphabet: "secrets_choice alphabet r \<in> set alphabet"
  by (simp add: secrets_choice_def length_alphabet)

lemma length_generate_short_code: "length (fst (generate_short_code g len)) = nat len"
  by (simp add: generate_short_code_def)

lemma set_generate_short_code: "set (fst (generate_short_code g len)) \<subseteq> set alphabet"
  by (auto simp: generate_short_code_def secrets_choice_alphabet)

section \<open>The generator loop and the store\<close>

lemma query_first_None:
  "(query_first db (\<lambda>r. short_code r = c) = None) = (c \<notin> set (map short_code (rows db)))"
  by (auto simp: query_first_def find_None_iff)

lemma candidate_Suc: "candidate g len (Suc k) = candidate (\<lambda>i. g (i + nat len)) len k"
  by (simp add: candidate_def ac_simps)

lemma unique_loop_find:
  "unique_loop g db len n =
     (case find (\<lambda>c. c \<notin> set (map short_code (rows db))) (map (candidate g len) [0..<n]) of
        Some c \<Rightarrow> c
      | None \<Rightarrow> fst (generate_short_code (\<lambda>i. g (i + n * nat len)) (len + 2)))"
proof (induction n arbitrary: g)
  case 0
  then show ?case by simp
next
  case (Suc n)
  have c0: "candidate g len 0 = fst (generate_short_code g len)"
    by (simp add: candidate_def)
  have shift: "snd (generate_short_code g len) = (\<lambda>i. g (i + nat len))"
    by (simp add: generate_short_code_def)
  have cands: "map (candidate g len) [0..<Suc n] =
      candidate g len 0 # map (candidate (\<lambda>i. g (i + nat len)) len) [0..<n]"
    by (simp only: map_upt_Suc candidate_Suc)
  have tail: "(\<lambda>i. g (i + n * nat len + nat len)) = (\<lambda>i. g (i + Suc n * nat len))"
    by (simp add: ac_simps)
  have "unique_loop g db len (Suc n) =
      (if candidate g len 0 \<notin> set (map short_code (rows db)) then candidate g len 0
       else unique_loop (\<lambda>i. g (i + nat len)) db len n)"
    by (simp add: c0 shift query_first_None split_beta Let_def)
  also have "\<dots> =
      (case find (\<lambda>c. c \<notin> set (map short_code (rows db)))
              (map (candidate g len) [0..<Suc n]) of
         Some c \<Rightarrow> c
       | None \<Rightarrow> fst (generate_short_code (\<lambda>i. g (i + Suc n * nat len)) (len + 2)))"
    unfolding cands by (simp add: Suc.IH tail cong: option.case_cong)
  finally show ?case .
qed

lemma find_append_last:
  "\<not> list_ex P xs \<Longrightarrow> P y \<Longrightarrow> find P (xs @ [y]) = Some y"
  by (induction xs) auto

lemma find_distinct_key:
  "distinct (map f xs) \<Longrightarrow> x \<in> set xs \<Longrightarrow> find (\<lambda>r. f r = f x) xs = Some x"
  by (induction xs) auto

lemma find_Some_set: "find P xs = Some x \<Longrightarrow> x \<in> set xs \<and> P x"
  by (induction xs) (auto split: if_splits)

lemma find_None_list_ex: "(find P xs = None) = (\<not> list_ex P xs)"
  by (induction xs) auto

lemma inserted_row_simps:
  "short_code (inserted_row now table code n) = code"
  "original_url (inserted_row now table code n) = n"
  "created_at (inserted_row now table code n) = Some now"
  by (simp_all add: inserted_row_def new_URL_def)

lemma SessionLocal_simps:
  "rows (SessionLocal table) = table" "pending (SessionLocal table) = []"
  "db_close (SessionLocal table) = SessionLocal table"
  "db_rollback (db_add (SessionLocal table) x) = SessionLocal table"
  by (simp_all add: SessionLocal_def db_close_def db_rollback_def db_add_def)

lemma save_url_fresh:
  "save_url now (SessionLocal table) (new_URL code n) =
     (if code \<in> set (map short_code table)
      then Inl (IntegrityError, db_add (SessionLocal table) (new_URL code n))
      else Inr (inserted_row now table code n,
                SessionLocal (table @ [inserted_row now table code n])))"
proof (cases "code \<in> set (map short_code table)")
  case True
  then show ?thesis
    by (simp add: save_url_def db_commit_def db_add_def SessionLocal_def new_URL_def)
next
  case False
  then have nex: "\<not> list_ex (\<lambda>r. short_code r = code) table"
    by (auto simp: list_ex_iff)
  have fnd: "find (\<lambda>r. short_code r = code) (table @ [inserted_row now table code n])
      = Some (inserted_row now table code n)"
    by (rule find_append_last[OF nex]) (simp add: inserted_row_simps)
  have flushed: "flush now table [new_URL code n] = Inr (table @ [inserted_row now table code n])"
    using False by (simp add: inserted_row_def new_URL_def)
  show ?thesis
    using False fnd flushed
    by (simp add: save_url_def db_commit_def db_add_def SessionLocal_def db_refresh_def
        query_first_def Let_def new_URL_def)
qed

lemma shorten_url_fresh:
  "shorten_url e g now (SessionLocal table) u =
     (if \<not> validate_url (validators_url e) u then (Inl invalid_url_error, SessionLocal table)
      else case find (\<lambda>r. original_url r = normalize_url u) table of
             Some existing_url \<Rightarrow> (Inr (201, response_of e existing_url), SessionLocal table)
           | None \<Rightarrow>
               (let code = get_unique_short_code g (SessionLocal table) 6 10 in
                if code \<in> set (map short_code table)
                then (Inl (save_failed e IntegrityError), SessionLocal table)
                else (Inr (201, response_of e (inserted_row now table code (normalize_url u))),
                      SessionLocal (table @ [inserted_row now table code (normalize_url u)]))))"
proof (cases "validate_url (validators_url e) u")
  case False
  then show ?thesis by (simp add: shorten_url_def invalid_url_error_def)
next
  case valid: True
  show ?thesis
  proof (cases "find (\<lambda>r. original_url r = normalize_url u) table")
    case (Some existing_url)
    with valid show ?thesis
      by (simp add: shorten_url_def query_first_def SessionLocal_simps)
  next
    case None
    with valid show ?thesis
      by (simp add: shorten_url_def query_first_def SessionLocal_simps save_url_fresh
          save_failed_def response_of_def inserted_row_simps Let_def)
  qed
qed

lemma create_short_url_cases:
  "create_short_url e g now table u =
     (if u = [] then
        (Inl (RequestValidationError ''String should have at least 1 character''), table)
      else if \<not> validators_url e (normalize_url u) then (Inl invalid_url_error, table)
      else case find (\<lambda>r. original_url r = normalize_url u) table of
             Some existing_url \<Rightarrow> (Inr (201, response_of e existing_url), table)
           | None \<Rightarrow>
               (let code = get_unique_short_code g (SessionLocal table) 6 10 in
                if code \<in> set (map short_code table) then (Inl (save_failed e IntegrityError), table)
                else (Inr (201, response_of e (inserted_row now table code (normalize_url u))),
                      table @ [inserted_row now table code (normalize_url u)])))"
proof (cases "u = []")
  case True
  then show ?thesis by (simp add: create_short_url_def URLShortenRequest_def)
next
  case False
  then have "create_short_url e g now table u =
      (let (result, db') = shorten_url e g now (SessionLocal table) u
       in (result, rows (db_close db')))"
    by (simp add: create_short_url_def URLShortenRequest_def get_db_def)
  then show ?thesis
    using False
    by (simp add: shorten_url_fresh validate_url_normalize SessionLocal_simps Let_def
        split: option.split)
qed

lemma redirect_table:
  "redirect table code =
     (case find (\<lambda>r. short_code r = code) table of
        None \<Rightarrow> Inl (not_found code)
      | Some url_record \<Rightarrow> Inr (RedirectResponse (original_url url_record) 302), table)"
  by (simp add: redirect_def get_db_def redirect_url_def query_first_def SessionLocal_simps)

lemma stats_table:
  "stats e table code =
     (case find (\<lambda>r. short_code r = code) table of
        None \<Rightarrow> Inl (not_found code)
      | Some url_record \<Rightarrow> Inr (200, response_of e url_record), table)"
  by (simp add: stats_def get_db_def get_url_stats_def query_first_def SessionLocal_simps)

section \<open>The create request\<close>

text \<open>What a successful create leaves behind, in either branch.\<close>

lemma create_success:
  assumes "create_short_url e g now table u = (Inr (st, r), table')"
  shows "st = 201 \<and> u \<noteq> [] \<and> validators_url e (normalize_url u) \<and>
         (\<exists>row. r = response_of e row \<and> original_url row = normalize_url u \<and>
            find (\<lambda>x. original_url x = normalize_url u) table' = Some row \<and>
            ((find (\<lambda>x. original_url x = normalize_url u) table = Some row \<and> table' = table) \<or>
             (find (\<lambda>x. original_url x = normalize_url u) table = None \<and>
              short_code row \<notin> set (map short_code table) \<and> table' = table @ [row])))"
proof -
  from assms have ne: "u \<noteq> []" and ok: "validators_url e (normalize_url u)"
    by (auto simp: create_short_url_cases split: if_splits)
  show ?thesis
  proof (cases "find (\<lambda>x. original_url x = normalize_url u) table")
    case (Some ex)
    with assms ne ok have "st = 201" "r = response_of e ex" "table' = table"
      by (simp_all add: create_short_url_cases)
    moreover from Some have "original_url ex = normalize_url u"
      by (auto dest: find_Some_set)
    ultimately show ?thesis using Some ne ok by auto
  next
    case None
    let ?code = "get_unique_short_code g (SessionLocal table) 6 10"
    let ?row = "inserted_row now table ?code (normalize_url u)"
    from assms ne ok None have fresh: "?code \<notin> set (map short_code table)"
      by (auto simp: create_short_url_cases Let_def split: if_splits)
    with assms ne ok None have res: "st = 201" "r = response_of e ?row" "table' = table @ [?row]"
      by (simp_all add: create_short_url_cases Let_def)
    from None have "\<not> list_ex (\<lambda>x. original_url x = normalize_url u) table"
      by (simp add: find_None_list_ex)
    then have "find (\<lambda>x. original_url x = normalize_url u) (table @ [?row]) = Some ?row"
      by (rule find_append_last) (simp add: inserted_row_simps)
    with res fresh None ne ok show ?thesis
      by (auto simp: inserted_row_simps)
  qed
qed

lemma create_failure:
  "create_short_url e g now table u = (Inl err, table') \<Longrightarrow> table' = table"
  by (auto simp: create_short_url_cases Let_def split: if_splits option.splits)

lemma create_preserves_unique:
  "unique_codes table \<Longrightarrow> unique_codes (snd (create_short_url e g now table u))"
proof (cases "create_short_url e g now table u")
  case (Pair res table')
  assume u: "unique_codes table"
  show ?thesis
  proof (cases res)
    case (Inl err)
    with Pair have "table' = table" by (auto dest: create_failure)
    with u Pair show ?thesis by simp
  next
    case (Inr sr)
    obtain st r where "sr = (st, r)" by (cases sr)
    with Pair Inr have "create_short_url e g now table u = (Inr (st, r), table')" by simp
    from create_success[OF this] u Pair show ?thesis
      by (auto simp: unique_codes_def)
  qed
qed

lemma step_preserves_unique: "unique_codes table \<Longrightarrow> unique_codes (step e table req)"
  by (cases req) (simp_all add: create_preserves_unique redirect_table stats_table)

lemma foldl_step_unique:
  "unique_codes table \<Longrightarrow> unique_codes (foldl (step e) table reqs)"
  by (induction reqs arbitrary: table) (simp_all add: step_preserves_unique)

section \<open>A run with a constant random source\<close>

lemma generate_zero_rng:
  "generate_short_code zero_rng 6 = (''aaaaaa'', zero_rng)"
  "generate_short_code zero_rng 8 = (''aaaaaaaa'', zero_rng)"
  by (simp_all add: generate_short_code_def zero_rng_def secrets_choice_def alphabet_def
      upt_rec[of 0] upt_rec[of "Suc _"])

lemma get_unique_zero_rng:
  "get_unique_short_code zero_rng (SessionLocal t) 6 10 =
     (if ''aaaaaa'' \<in> set (map short_code t) then ''aaaaaaaa'' else ''aaaaaa'')"
proof -
  have c: "candidate zero_rng 6 k = ''aaaaaa''" for k
    using generate_zero_rng(1) by (simp add: candidate_def zero_rng_def)
  have z: "(\<lambda>i. zero_rng (i + k)) = zero_rng" for k
    by (simp add: zero_rng_def)
  have u: "get_unique_short_code zero_rng (SessionLocal t) 6 10 =
      (case find (\<lambda>c. c \<notin> set (map short_code t)) (map (candidate zero_rng 6) [0..<nat 10]) of
         Some c \<Rightarrow> c
       | None \<Rightarrow> fst (generate_short_code (\<lambda>i. zero_rng (i + nat 10 * nat 6)) (6 + 2)))"
    by (simp only: get_unique_short_code_def unique_loop_find SessionLocal_simps)
  show ?thesis
  proof (cases "''aaaaaa'' \<in> set (map short_code t)")
    case True
    then have f: "find (\<lambda>c. c \<notin> set (map short_code t)) (map (candidate zero_rng 6) [0..<nat 10]) = None"
      by (simp add: find_None_iff c)
    have "get_unique_short_code zero_rng (SessionLocal t) 6 10 =
        fst (generate_short_code (\<lambda>i. zero_rng (i + nat 10 * nat 6)) (6 + 2))"
      by (simp only: u f option.case)
    also have "\<dots> = ''aaaaaaaa''"
      by (simp add: z generate_zero_rng)
    finally show ?thesis using True by simp
  next
    case False
    have "map (candidate zero_rng 6) [0..<nat 10] = ''aaaaaa'' # map (candidate zero_rng 6) [1..<nat 10]"
      by (simp add: upt_rec[of 0] c)
    then have f: "find (\<lambda>c. c \<notin> set (map short_code t)) (map (candidate zero_rng 6) [0..<nat 10])
        = Some ''aaaaaa''"
      using False by simp
    show ?thesis using False by (simp only: u f option.case if_False)
  qed
qed

lemma run_two_creates:
  "run example_env [Create zero_rng 1 ''https://a.example'', Create zero_rng 2 ''https://b.example'']
   = two_rows"
  by (simp add: run_def create_short_url_cases get_unique_zero_rng example_env_def
      normalize_url_def startswith_def inserted_row_def new_URL_def next_id_def two_rows_def
      Let_def)

lemma create_example:
  "create_short_url example_env zero_rng 5 [] ''example.com/x'' =
     (Inr (201, URLShortenResponse ''http://localhost:8000/aaaaaa'' ''https://example.com/x''
                  ''aaaaaa'' (Some 5)),
      [\<lparr>url_id = Some 1, short_code = ''aaaaaa'', original_url = ''https://example.com/x'',
        created_at = Some 5\<rparr>])"
  by (simp add: create_short_url_cases get_unique_zero_rng example_env_def normalize_url_def
      startswith_def inserted_row_def new_URL_def next_id_def response_of_def base_url_def
      Let_def)

lemma length_get_unique_short_code:
  "length (get_unique_short_code g db 6 10) = 6 \<or> length (get_unique_short_code g db 6 10) = 8"
proof (cases "find (\<lambda>c. c \<notin> set (map short_code (rows db))) (map (candidate g 6) [0..<nat 10])")
  case None
  then show ?thesis
    by (simp add: get_unique_short_code_def unique_loop_find length_generate_short_code)
next
  case (Some c)
  then have "c \<in> set (map (candidate g 6) [0..<nat 10])"
    by (auto dest: find_Some_set)
  then have "length c = 6"
    by (auto simp: candidate_def length_generate_short_code)
  with Some show ?thesis
    by (simp add: get_unique_short_code_def unique_loop_find)
qed

section \<open>The claims\<close>

text \<open>
  C1. \<open>get_unique_short_code\<close> is the contract \<open>ensure_unique\<close>: it returns the first of
  up to \<open>max_attempts\<close> successive candidates that the store does not hold, and when
  all of them are held it returns one code of \<open>length + 2\<close> without looking it up. It
  returns a code for every store, every random source and every \<open>max_attempts\<close> (a
  negative one runs no attempt). The second conjunct is a run in which the code
  returned by the fallback is one the store already holds.
\<close>

theorem get_unique_short_code_contract:
  "get_unique_short_code g db len max_attempts = ensure_unique g db len max_attempts
   \<and> get_unique_short_code zero_rng (SessionLocal two_rows) 6 10
       \<in> set (map short_code two_rows)"
proof -
  have "get_unique_short_code g db len max_attempts = ensure_unique g db len max_attempts"
    by (simp add: get_unique_short_code_def ensure_unique_def unique_loop_find)
  moreover have "get_unique_short_code zero_rng (SessionLocal two_rows) 6 10
      \<in> set (map short_code two_rows)"
    by (simp add: get_unique_zero_rng two_rows_def)
  ultimately show ?thesis by simp
qed

text \<open>
  C2. Round trip: when a create request on a table with unique short codes returns a
  response, its status is 201 and the redirect for the returned short code, on the
  table the create left, is a 302 to the normalized form of the submitted URL.
\<close>

theorem redirect_after_create:
  assumes "unique_codes table"
    and "create_short_url e g now table u = (Inr (st, r), table')"
  shows "st = 201 \<and>
         redirect table' (resp_short_code r) =
           (Inr (RedirectResponse (normalize_url u) 302), table')"
proof -
  from create_success[OF assms(2)] obtain row where
    st: "st = 201" and r: "r = response_of e row" and
    orig: "original_url row = normalize_url u" and
    found: "find (\<lambda>x. original_url x = normalize_url u) table' = Some row"
    by blast
  from found have mem: "row \<in> set table'" by (auto dest: find_Some_set)
  from assms(1) have "unique_codes (snd (create_short_url e g now table u))"
    by (rule create_preserves_unique)
  with assms(2) have "distinct (map short_code table')" by (simp add: unique_codes_def)
  from find_distinct_key[OF this mem]
  have "find (\<lambda>x. short_code x = short_code row) table' = Some row" .
  with st r orig show ?thesis
    by (simp add: redirect_table response_of_def)
qed

theorem redirect_after_create_witness:
  "unique_codes []
   \<and> create_short_url example_env zero_rng 5 [] ''example.com/x'' =
       (Inr (201, URLShortenResponse ''http://localhost:8000/aaaaaa'' ''https://example.com/x''
                    ''aaaaaa'' (Some 5)),
        [\<lparr>url_id = Some 1, short_code = ''aaaaaa'', original_url = ''https://example.com/x'',
          created_at = Some 5\<rparr>])
   \<and> redirect [\<lparr>url_id = Some 1, short_code = ''aaaaaa'',
                  original_url = ''https://example.com/x'', created_at = Some 5\<rparr>] ''aaaaaa'' =
       (Inr (RedirectResponse ''https://example.com/x'' 302),
        [\<lparr>url_id = Some 1, short_code = ''aaaaaa'', original_url = ''https://example.com/x'',
          created_at = Some 5\<rparr>])"
proof -
  have h1: "unique_codes []" by (simp add: unique_codes_def)
  have n: "normalize_url ''example.com/x'' = ''https://example.com/x''"
    by (simp add: normalize_url_def startswith_def)
  from redirect_after_create[OF h1 create_example] h1 create_example n
  show ?thesis by simp
qed

text \<open>
  C3, as stated, fails: a create for a valid URL need not succeed. With the random
  source that always draws 0, on the table two earlier creates left, the ten
  candidates and the fallback code are all in the table, the insert violates the
  unique column and the request ends in a 500 with the table as it was.
\<close>

theorem create_valid_url_fails:
  "validate_url (validators_url example_env) ''https://c.example''
   \<and> run example_env [Create zero_rng 1 ''https://a.example'',
                       Create zero_rng 2 ''https://b.example''] = two_rows
   \<and> result_status (fst (create_short_url example_env zero_rng 3 two_rows ''https://c.example''))
       = 500
   \<and> snd (create_short_url example_env zero_rng 3 two_rows ''https://c.example'') = two_rows"
proof -
  have "validate_url (validators_url example_env) ''https://c.example''"
    by (simp add: example_env_def validate_url_normalize normalize_url_def startswith_def)
  moreover have "create_short_url example_env zero_rng 3 two_rows ''https://c.example''
       = (Inl (save_failed example_env IntegrityError), two_rows)"
    by (simp add: create_short_url_cases get_unique_zero_rng example_env_def
        normalize_url_def startswith_def two_rows_def Let_def)
  ultimately show ?thesis using run_two_creates by (simp add: save_failed_def)
qed

text \<open>
  C3, amended. For every valid URL a create either succeeds with status 201 or ends in
  the 500 of a failed insert with the table as it was, the latter exactly when no row
  has the normalized URL and the code \<open>get_unique_short_code\<close> hands back is one the
  table holds. When it succeeds, a later create on the table it left, with any
  non-empty input that normalizes to the same URL, whatever its random source and
  time, returns status 201 with the same response (the same short code and fields) and
  leaves the table as it is.
\<close>

theorem create_twice_same_code:
  assumes "validate_url (validators_url e) u1"
    and "u2 \<noteq> []"
    and "normalize_url u2 = normalize_url u1"
  shows "if find (\<lambda>x. original_url x = normalize_url u1) table = None \<and>
            get_unique_short_code g (SessionLocal table) 6 10 \<in> set (map short_code table)
         then create_short_url e g now table u1 = (Inl (save_failed e IntegrityError), table) \<and>
              http_status (save_failed e IntegrityError) = 500
         else (\<exists>r1 table1.
                 create_short_url e g now table u1 = (Inr (201, r1), table1) \<and>
                 create_short_url e g' now' table1 u2 = (Inr (201, r1), table1))"
proof (cases "find (\<lambda>x. original_url x = normalize_url u1) table = None \<and>
            get_unique_short_code g (SessionLocal table) 6 10 \<in> set (map short_code table)")
  case True
  with assms(1) show ?thesis
    by (simp add: create_short_url_cases validate_url_normalize save_failed_def)
next
  case False
  from assms(1) have ne: "u1 \<noteq> []" and ok: "validators_url e (normalize_url u1)"
    by (simp_all add: validate_url_normalize)
  from False ne ok obtain r1 table1 where
    first: "create_short_url e g now table u1 = (Inr (201, r1), table1)"
    by (cases "find (\<lambda>x. original_url x = normalize_url u1) table")
       (auto simp: create_short_url_cases Let_def)
  from create_success[OF first] obtain row where
    r: "r1 = response_of e row" and
    found: "find (\<lambda>x. original_url x = normalize_url u1) table1 = Some row"
    by blast
  from assms(2,3) ok found r have
    "create_short_url e g' now' table1 u2 = (Inr (201, r1), table1)"
    by (simp add: create_short_url_cases)
  with first False show ?thesis by auto
qed

theorem create_twice_same_code_witness:
  "validate_url (validators_url example_env) ''example.com/x''
   \<and> ''https://example.com/x'' \<noteq> []
   \<and> normalize_url ''https://example.com/x'' = normalize_url ''example.com/x''
   \<and> create_short_url example_env zero_rng 5 [] ''example.com/x'' =
       (Inr (201, URLShortenResponse ''http://localhost:8000/aaaaaa'' ''https://example.com/x''
                    ''aaaaaa'' (Some 5)),
        [\<lparr>url_id = Some 1, short_code = ''aaaaaa'', original_url = ''https://example.com/x'',
          created_at = Some 5\<rparr>])
   \<and> create_short_url example_env (\<lambda>i. i) 9
        [\<lparr>url_id = Some 1, short_code = ''aaaaaa'', original_url = ''https://example.com/x'',
          created_at = Some 5\<rparr>] ''https://example.com/x'' =
       (Inr (201, URLShortenResponse ''http://localhost:8000/aaaaaa'' ''https://example.com/x''
                    ''aaaaaa'' (Some 5)),
        [\<lparr>url_id = Some 1, short_code = ''aaaaaa'', original_url = ''https://example.com/x'',
          created_at = Some 5\<rparr>])
   \<and> validate_url (validators_url example_env) ''https://c.example''
   \<and> create_short_url example_env zero_rng 3 two_rows ''https://c.example'' =
       (Inl (save_failed example_env IntegrityError), two_rows)"
proof -
  have h1: "validate_url (validators_url example_env) ''example.com/x''"
    by (simp add: example_env_def validate_url_normalize normalize_url_def startswith_def)
  have h2: "''https://example.com/x'' \<noteq> []" by simp
  have h3: "normalize_url ''https://example.com/x'' = normalize_url ''example.com/x''"
    by (simp add: normalize_url_def startswith_def)
  have fresh: "get_unique_short_code zero_rng (SessionLocal []) 6 10 \<notin> set (map short_code [])"
    by simp
  from create_twice_same_code[OF h1 h2 h3, of "[]" zero_rng 5 "\<lambda>i. i" 9] fresh create_example
  have second: "create_short_url example_env (\<lambda>i. i) 9
        [\<lparr>url_id = Some 1, short_code = ''aaaaaa'', original_url = ''https://example.com/x'',
          created_at = Some 5\<rparr>] ''https://example.com/x'' =
       (Inr (201, URLShortenResponse ''http://localhost:8000/aaaaaa'' ''https://example.com/x''
                    ''aaaaaa'' (Some 5)),
        [\<lparr>url_id = Some 1, short_code = ''aaaaaa'', original_url = ''https://example.com/x'',
          created_at = Some 5\<rparr>])"
    by simp
  have n: "normalize_url ''https://c.example'' = ''https://c.example''"
    by (simp add: normalize_url_def startswith_def)
  have k1: "validate_url (validators_url example_env) ''https://c.example''"
    by (simp add: example_env_def validate_url_normalize n)
  have k2: "''https://c.example'' \<noteq> []" by simp
  have none: "find (\<lambda>x. original_url x = normalize_url ''https://c.example'') two_rows = None"
    by (simp add: n two_rows_def)
  have held: "get_unique_short_code zero_rng (SessionLocal two_rows) 6 10
      \<in> set (map short_code two_rows)"
    by (simp add: get_unique_zero_rng two_rows_def)
  from create_twice_same_code[OF k1 k2 refl, of two_rows zero_rng 3] none held
  have failed: "create_short_url example_env zero_rng 3 two_rows ''https://c.example'' =
       (Inl (save_failed example_env IntegrityError), two_rows)"
    by simp
  from h1 h2 h3 create_example second k1 failed show ?thesis by simp
qed

text \<open>
  C10. \<open>normalize_url\<close> is idempotent: its result starts with one of the two prefixes,
  and a string that does is returned as it is.
\<close>

theorem normalize_url_idempotent:
  "normalize_url (normalize_url u) = normalize_url u
   \<and> startswith (normalize_url u) [''http://'', ''https://'']"
proof -
  have p: "startswith (normalize_url u) [''http://'', ''https://'']"
    by (rule normalize_url_startswith)
  have "normalize_url (normalize_url u) = normalize_url u"
    using p by (subst normalize_url_def) simp
  with p show ?thesis by simp
qed

text \<open>
  C4. Normalization: an input that starts with neither \<open>http://\<close> nor \<open>https://\<close> gets
  \<open>https://\<close> in front, an input that starts with one of them is returned as it is, and
  a create that returns a response reports the normalized URL, holds a row with that
  URL and the returned short code, and has left the table as it was exactly when the
  table already had a row with the normalized URL; otherwise it has appended one row,
  with the normalized URL.
\<close>

theorem normalize_url_prefix:
  "(\<not> startswith u [''http://'', ''https://''] \<longrightarrow> normalize_url u = ''https://'' @ u) \<and>
   (startswith u [''http://'', ''https://''] \<longrightarrow> normalize_url u = u) \<and>
   (create_short_url e g now table u = (Inr (st, r), table') \<longrightarrow>
      resp_original_url r = normalize_url u \<and>
      (\<exists>row \<in> set table'. original_url row = normalize_url u
                           \<and> short_code row = resp_short_code r) \<and>
      ((table' = table) = (\<exists>row \<in> set table. original_url row = normalize_url u)) \<and>
      (table' \<noteq> table \<longrightarrow>
         (\<exists>row. table' = table @ [row] \<and> original_url row = normalize_url u)))"
proof -
  have a: "\<not> startswith u [''http://'', ''https://''] \<longrightarrow> normalize_url u = ''https://'' @ u"
    by (simp add: normalize_url_def)
  have b: "startswith u [''http://'', ''https://''] \<longrightarrow> normalize_url u = u"
    by (simp add: normalize_url_def)
  have c: "resp_original_url r = normalize_url u \<and>
      (\<exists>row \<in> set table'. original_url row = normalize_url u
                           \<and> short_code row = resp_short_code r) \<and>
      ((table' = table) = (\<exists>row \<in> set table. original_url row = normalize_url u)) \<and>
      (table' \<noteq> table \<longrightarrow>
         (\<exists>row. table' = table @ [row] \<and> original_url row = normalize_url u))"
    if h: "create_short_url e g now table u = (Inr (st, r), table')"
  proof -
    from create_success[OF h] obtain row where
      r: "r = response_of e row" and orig: "original_url row = normalize_url u" and
      found: "find (\<lambda>x. original_url x = normalize_url u) table' = Some row" and
      branch: "(find (\<lambda>x. original_url x = normalize_url u) table = Some row \<and> table' = table) \<or>
               (find (\<lambda>x. original_url x = normalize_url u) table = None \<and>
                short_code row \<notin> set (map short_code table) \<and> table' = table @ [row])"
      by blast
    from found have mem: "row \<in> set table'" by (auto dest: find_Some_set)
    have 1: "resp_original_url r = normalize_url u"
      using r orig by (simp add: response_of_def)
    have 2: "\<exists>row \<in> set table'. original_url row = normalize_url u
                           \<and> short_code row = resp_short_code r"
      using mem r orig by (auto simp: response_of_def)
    from branch have 3: "(table' = table) = (\<exists>row \<in> set table. original_url row = normalize_url u)"
    proof
      assume "find (\<lambda>x. original_url x = normalize_url u) table = Some row \<and> table' = table"
      then show ?thesis by (auto dest: find_Some_set)
    next
      assume n: "find (\<lambda>x. original_url x = normalize_url u) table = None \<and>
                short_code row \<notin> set (map short_code table) \<and> table' = table @ [row]"
      then have "\<not> (\<exists>row \<in> set table. original_url row = normalize_url u)"
        by (auto simp: find_None_iff)
      with n show ?thesis by simp
    qed
    from branch orig have 4: "table' \<noteq> table \<longrightarrow>
         (\<exists>row. table' = table @ [row] \<and> original_url row = normalize_url u)"
      by auto
    from 1 2 3 4 show ?thesis by simp
  qed
  from a b c show ?thesis by blast
qed

theorem normalize_url_prefix_witness:
  "\<not> startswith ''example.com/x'' [''http://'', ''https://'']
   \<and> normalize_url ''example.com/x'' = ''https://example.com/x''
   \<and> startswith ''http://a.example'' [''http://'', ''https://'']
   \<and> normalize_url ''http://a.example'' = ''http://a.example''
   \<and> create_short_url example_env zero_rng 5 [] ''example.com/x'' =
       (Inr (201, URLShortenResponse ''http://localhost:8000/aaaaaa'' ''https://example.com/x''
                    ''aaaaaa'' (Some 5)),
        [\<lparr>url_id = Some 1, short_code = ''aaaaaa'', original_url = ''https://example.com/x'',
          created_at = Some 5\<rparr>])"
proof -
  have h1: "\<not> startswith ''example.com/x'' [''http://'', ''https://'']"
    by (simp add: startswith_def)
  have h2: "startswith ''http://a.example'' [''http://'', ''https://'']"
    by (simp add: startswith_def)
  from normalize_url_prefix[of "''example.com/x''"] h1
  have n1: "normalize_url ''example.com/x'' = ''https://example.com/x''" by simp
  from normalize_url_prefix[of "''http://a.example''"] h2
  have n2: "normalize_url ''http://a.example'' = ''http://a.example''" by simp
  from h1 h2 n1 n2 create_example show ?thesis by simp
qed

text \<open>
  C6. Not found: a short code that no row of the table carries makes both the redirect
  and the stats request fail with the 404 whose detail quotes the code, and leaves the
  table as it is; a code some row carries makes both succeed. The comparison is equality
  of strings, so a code in another case is another code.
\<close>

theorem unknown_code_not_found:
  "(code \<notin> set (map short_code table) \<longrightarrow>
      redirect table code = (Inl (not_found code), table) \<and>
      stats e table code = (Inl (not_found code), table)) \<and>
   (code \<in> set (map short_code table) \<longrightarrow>
      (\<exists>r. fst (redirect table code) = Inr r) \<and> (\<exists>r. fst (stats e table code) = Inr r)) \<and>
   http_status (not_found code) = 404 \<and>
   sublist code (http_detail (not_found code))"
proof -
  have a: "redirect table code = (Inl (not_found code), table) \<and>
      stats e table code = (Inl (not_found code), table)"
    if "code \<notin> set (map short_code table)"
  proof -
    from that have "find (\<lambda>r. short_code r = code) table = None"
      by (auto simp: find_None_iff)
    then show ?thesis by (simp add: redirect_table stats_table)
  qed
  have b: "(\<exists>r. fst (redirect table code) = Inr r) \<and> (\<exists>r. fst (stats e table code) = Inr r)"
    if "code \<in> set (map short_code table)"
  proof -
    from that have "find (\<lambda>r. short_code r = code) table \<noteq> None"
      by (auto simp: find_None_iff)
    then obtain row where "find (\<lambda>r. short_code r = code) table = Some row" by auto
    then show ?thesis by (simp add: redirect_table stats_table)
  qed
  have c: "http_status (not_found code) = 404"
    by (simp add: not_found_def)
  have "http_detail (not_found code) = (''Short code '' @ [CHR 0x27]) @ code @ ([CHR 0x27] @ '' not found'')"
    by (simp add: not_found_def)
  then have d: "sublist code (http_detail (not_found code))"
    by (simp only: sublist_appendI)
  from a b c d show ?thesis by blast
qed

theorem unknown_code_not_found_witness:
  "''AAAAAA'' \<notin> set (map short_code two_rows)
   \<and> redirect two_rows ''AAAAAA'' = (Inl (not_found ''AAAAAA''), two_rows)
   \<and> stats example_env two_rows ''AAAAAA'' = (Inl (not_found ''AAAAAA''), two_rows)
   \<and> ''aaaaaa'' \<in> set (map short_code two_rows)
   \<and> fst (redirect two_rows ''aaaaaa'') = Inr (RedirectResponse ''https://a.example'' 302)"
proof -
  have h1: "''AAAAAA'' \<notin> set (map short_code two_rows)" by (simp add: two_rows_def)
  have h2: "''aaaaaa'' \<in> set (map short_code two_rows)" by (simp add: two_rows_def)
  have r: "fst (redirect two_rows ''aaaaaa'') = Inr (RedirectResponse ''https://a.example'' 302)"
    by (simp add: redirect_table two_rows_def)
  from unknown_code_not_found[of "''AAAAAA''" two_rows example_env] h1 h2 r
  show ?thesis by simp
qed

text \<open>
  C5, as stated, fails for the empty URL: the request schema requires a \<open>url\<close> of at
  least one character, so a create with an empty URL is rejected as a request that
  does not fit the schema, status 422, and never reaches the handler's 400.
\<close>

theorem create_empty_url_not_400:
  "fst (create_short_url example_env zero_rng 0 [] []) =
     Inl (RequestValidationError ''String should have at least 1 character'')
   \<and> http_status (RequestValidationError ''String should have at least 1 character'') = 422
   \<and> http_status (RequestValidationError ''String should have at least 1 character'') \<noteq> 400"
  by (simp add: create_short_url_cases)

text \<open>
  C5, amended. An empty URL is rejected by the request schema (422). A non-empty URL
  is rejected with the handler's 400 exactly when the validator refuses it after
  \<open>https://\<close> has been put in front of an input that has neither prefix; so
  \<open>not-a-valid-url\<close> gets the 400 when the validator refuses
  \<open>https://not-a-valid-url\<close>. The handler's own check refuses the empty string as well.
  A request that ends in an error leaves the table as it was.
\<close>

theorem create_rejects_invalid:
  "(u = [] \<longrightarrow>
      create_short_url e g now table u =
        (Inl (RequestValidationError ''String should have at least 1 character''), table)) \<and>
   (u \<noteq> [] \<longrightarrow>
      (\<exists>err. fst (create_short_url e g now table u) = Inl err \<and> http_status err = 400)
        = (\<not> validators_url e (normalize_url u))) \<and>
   (u \<noteq> [] \<and> \<not> validators_url e (normalize_url u) \<longrightarrow>
      create_short_url e g now table u = (Inl invalid_url_error, table)) \<and>
   (\<not> validators_url e ''https://not-a-valid-url'' \<longrightarrow>
      create_short_url e g now table ''not-a-valid-url'' = (Inl invalid_url_error, table)) \<and>
   (fst (create_short_url e g now table u) = Inl err' \<longrightarrow>
      snd (create_short_url e g now table u) = table) \<and>
   http_status invalid_url_error = 400 \<and>
   \<not> validate_url (validators_url e) []"
proof -
  have a: "u = [] \<longrightarrow>
      create_short_url e g now table u =
        (Inl (RequestValidationError ''String should have at least 1 character''), table)"
    by (simp add: create_short_url_cases)
  have c: "u \<noteq> [] \<and> \<not> validators_url e (normalize_url u) \<longrightarrow>
      create_short_url e g now table u = (Inl invalid_url_error, table)"
    by (simp add: create_short_url_cases)
  have s400: "http_status invalid_url_error = 400"
    by (simp add: invalid_url_error_def)
  have b: "(\<exists>err. fst (create_short_url e g now table u) = Inl err \<and> http_status err = 400)
        = (\<not> validators_url e (normalize_url u))" if ne: "u \<noteq> []"
  proof (cases "validators_url e (normalize_url u)")
    case False
    with ne c s400 show ?thesis by auto
  next
    case True
    with ne have "\<not> (\<exists>err. fst (create_short_url e g now table u) = Inl err \<and> http_status err = 400)"
      by (auto simp: create_short_url_cases save_failed_def Let_def split: option.splits if_splits)
    with True show ?thesis by simp
  qed
  have n: "normalize_url ''not-a-valid-url'' = ''https://not-a-valid-url''"
    by (simp add: normalize_url_def startswith_def)
  have d: "\<not> validators_url e ''https://not-a-valid-url'' \<longrightarrow>
      create_short_url e g now table ''not-a-valid-url'' = (Inl invalid_url_error, table)"
    by (simp add: create_short_url_cases n)
  have f: "fst (create_short_url e g now table u) = Inl err' \<longrightarrow>
      snd (create_short_url e g now table u) = table"
    by (cases "create_short_url e g now table u") (auto dest: create_failure)
  have v: "\<not> validate_url (validators_url e) []"
    by (simp add: validate_url_def)
  from a b c d f s400 v show ?thesis by blast
qed

theorem create_rejects_invalid_witness:
  "create_short_url example_env zero_rng 0 two_rows [] =
       (Inl (RequestValidationError ''String should have at least 1 character''), two_rows)
   \<and> ''not-a-valid-url'' \<noteq> []
   \<and> \<not> validators_url example_env ''https://not-a-valid-url''
   \<and> create_short_url example_env zero_rng 0 two_rows ''not-a-valid-url'' =
       (Inl invalid_url_error, two_rows)
   \<and> snd (create_short_url example_env zero_rng 0 two_rows ''not-a-valid-url'') = two_rows"
proof -
  have h: "\<not> validators_url example_env ''https://not-a-valid-url''"
    by (simp add: example_env_def)
  from create_rejects_invalid[of "[]" example_env zero_rng 0 two_rows]
  have e: "create_short_url example_env zero_rng 0 two_rows [] =
       (Inl (RequestValidationError ''String should have at least 1 character''), two_rows)"
    by simp
  from create_rejects_invalid[of "''not-a-valid-url''" example_env zero_rng 0 two_rows] h
  have r: "create_short_url example_env zero_rng 0 two_rows ''not-a-valid-url'' =
       (Inl invalid_url_error, two_rows)"
    by simp
  from h e r show ?thesis by simp
qed

text \<open>
  C7. Uniqueness: after any sequence of create, redirect and stats requests run one
  after the other from the empty table, no two rows share a short code; and each
  single request keeps a table without shared short codes that way.
\<close>

theorem short_codes_unique:
  "unique_codes (run e reqs) \<and>
   (unique_codes table \<longrightarrow> unique_codes (step e table req))"
proof -
  have "unique_codes []" by (simp add: unique_codes_def)
  then have "unique_codes (run e reqs)"
    unfolding run_def by (rule foldl_step_unique)
  then show ?thesis by (simp add: step_preserves_unique)
qed

theorem short_codes_unique_witness:
  "unique_codes (butlast two_rows)
   \<and> step example_env (butlast two_rows) (Create zero_rng 2 ''https://b.example'') = two_rows
   \<and> unique_codes two_rows"
proof -
  have h: "unique_codes (butlast two_rows)"
    by (simp add: unique_codes_def two_rows_def)
  have s: "step example_env (butlast two_rows) (Create zero_rng 2 ''https://b.example'') = two_rows"
    by (simp add: create_short_url_cases get_unique_zero_rng example_env_def
        normalize_url_def startswith_def inserted_row_def new_URL_def next_id_def two_rows_def
        Let_def)
  from short_codes_unique[of example_env "[]" "butlast two_rows"
      "Create zero_rng 2 ''https://b.example''"] h s
  show ?thesis by simp
qed

text \<open>
  C8. Code shape: for a length that is not negative and any random source,
  \<open>generate_short_code\<close> returns exactly that many characters, each one of the 62
  distinct characters of the alphabet (the letters of both cases and the digits); with
  the default length 6, the one create asks for, the code has 6 characters.
\<close>

theorem generate_short_code_shape:
  "0 \<le> n \<Longrightarrow>
     int (length (fst (generate_short_code g n))) = n \<and>
     set (fst (generate_short_code g n)) \<subseteq> set alphabet \<and>
     length alphabet = 62 \<and> distinct alphabet \<and>
     length (fst (generate_short_code g 6)) = 6"
proof -
  assume "0 \<le> n"
  then have "int (length (fst (generate_short_code g n))) = n"
    by (simp add: length_generate_short_code)
  moreover have "distinct alphabet"
    by (simp add: alphabet_def)
  moreover have "length (fst (generate_short_code g 6)) = 6"
    by (simp add: length_generate_short_code)
  ultimately show ?thesis
    using set_generate_short_code length_alphabet by simp
qed

theorem generate_short_code_shape_witness:
  "(0::int) \<le> 6
   \<and> int (length (fst (generate_short_code zero_rng 6))) = 6
   \<and> fst (generate_short_code zero_rng 6) = ''aaaaaa''
   \<and> set (fst (generate_short_code zero_rng 6)) \<subseteq> set alphabet"
proof -
  have h: "(0::int) \<le> 6" by simp
  from generate_short_code_shape[OF h, of zero_rng] generate_zero_rng(1)
  show ?thesis by simp
qed

text \<open>
  C9. A failed insert: when the URL is valid, no row has its normalized form, and the
  commit of the new object fails, the handler answers with the 500 that wraps the
  exception and has rolled the session back: the rows are those before the request and
  nothing is left pending.
\<close>

theorem failed_insert_rolls_back:
  assumes "validate_url (validators_url e) u"
    and "query_first db (\<lambda>r. original_url r = normalize_url u) = None"
    and "db_commit now (db_add db (new_URL (get_unique_short_code g db 6 10) (normalize_url u)))
           = Inl ex"
  shows "shorten_url e g now db u = (Inl (save_failed e ex), db\<lparr>pending := []\<rparr>) \<and>
         http_status (save_failed e ex) = 500 \<and>
         rows (snd (shorten_url e g now db u)) = rows db \<and>
         pending (snd (shorten_url e g now db u)) = []"
proof -
  let ?obj = "new_URL (get_unique_short_code g db 6 10) (normalize_url u)"
  from assms(3) have "save_url now db ?obj = Inl (ex, db_add db ?obj)"
    by (simp add: save_url_def Let_def)
  with assms(1,2) have
    "shorten_url e g now db u = (Inl (save_failed e ex), db_rollback (db_add db ?obj))"
    by (simp add: shorten_url_def save_failed_def Let_def)
  moreover have "db_rollback (db_add db ?obj) = db\<lparr>pending := []\<rparr>"
    by (simp add: db_rollback_def db_add_def)
  ultimately show ?thesis
    by (simp add: save_failed_def)
qed

theorem failed_insert_rolls_back_witness:
  "validate_url (validators_url example_env) ''https://c.example''
   \<and> query_first (SessionLocal two_rows)
        (\<lambda>r. original_url r = normalize_url ''https://c.example'') = None
   \<and> db_commit 3 (db_add (SessionLocal two_rows)
        (new_URL (get_unique_short_code zero_rng (SessionLocal two_rows) 6 10)
           (normalize_url ''https://c.example''))) = Inl IntegrityError
   \<and> shorten_url example_env zero_rng 3 (SessionLocal two_rows) ''https://c.example'' =
       (Inl (save_failed example_env IntegrityError), SessionLocal two_rows)
   \<and> http_status (save_failed example_env IntegrityError) = 500"
proof -
  have n: "normalize_url ''https://c.example'' = ''https://c.example''"
    by (simp add: normalize_url_def startswith_def)
  have h1: "validate_url (validators_url example_env) ''https://c.example''"
    by (simp add: example_env_def validate_url_normalize n)
  have h2: "query_first (SessionLocal two_rows)
        (\<lambda>r. original_url r = normalize_url ''https://c.example'') = None"
    by (simp add: n query_first_def SessionLocal_def two_rows_def)
  have code: "get_unique_short_code zero_rng (SessionLocal two_rows) 6 10 = ''aaaaaaaa''"
    by (simp add: get_unique_zero_rng two_rows_def)
  have h3: "db_commit 3 (db_add (SessionLocal two_rows)
        (new_URL (get_unique_short_code zero_rng (SessionLocal two_rows) 6 10)
           (normalize_url ''https://c.example''))) = Inl IntegrityError"
    unfolding n code
    by (simp add: db_commit_def db_add_def SessionLocal_def new_URL_def two_rows_def)
  have p: "(SessionLocal two_rows)\<lparr>pending := []\<rparr> = SessionLocal two_rows"
    by (simp add: SessionLocal_def)
  from failed_insert_rolls_back[OF h1 h2 h3] h1 h2 h3 p
  show ?thesis by simp
qed

end
